theory Spec2Isabelle
  imports Main "HOL-Library.Sublist"
begin

section \<open>Data model (src/types.ts)\<close>

text \<open>
  \<^verbatim>\<open>NewMedication = Omit<Medication, 'id' | 'created_at' | 'user_id'>\<close>: the three
  domain fields. \<^verbatim>\<open>Medication\<close> is the extension of that record by the identifier, the
  creation timestamp and the owner. The field \<^verbatim>\<open>id\<close> is named \<open>id_field\<close> here, since
  \<open>id\<close> is the identity function of HOL.
\<close>

record new_medication =
  name :: string
  dosage :: string
  frequency :: string

record medication = new_medication +
  id_field :: string
  created_at :: string
  user_id :: string

text \<open>
  What a thrown value can be in the two hooks: a JavaScript \<^verbatim>\<open>Error\<close> built by the hook
  itself with a message, or the error object handed back by the remote store.
\<close>

datatype error = Error string | StoreError string

text \<open>
  \<^verbatim>\<open>const currentUserId = user?.id\<close> is a string or \<^verbatim>\<open>undefined\<close>: a \<open>string option\<close>.
  The guards of the hooks are JavaScript truthiness tests (\<^verbatim>\<open>!currentUserId\<close>,
  \<^verbatim>\<open>!!currentUserId\<close>): \<^verbatim>\<open>undefined\<close> and the empty string are both falsy.
\<close>

fun truthy :: "string option \<Rightarrow> bool" where
  "truthy None = False"
| "truthy (Some u) = (u \<noteq> [])"

text \<open>The query key \<^verbatim>\<open>["medications", currentUserId]\<close>.\<close>

type_synonym query_key = "string \<times> string option"

definition queryKey :: "string option \<Rightarrow> query_key" where
  "queryKey uid = (''medications'', uid)"

section \<open>The query client\<close>

text \<open>
  Modelled from the spec: the Cache Store of section 4.1 is the \<^verbatim>\<open>QueryClient\<close> of the
  dependency \<^verbatim>\<open>@tanstack/react-query\<close>, whose code is not part of the sources. Per key it
  holds the cached collection (absent or a sequence of records), the time of the last
  write of data, the invalidation mark and whether a fetch is in flight. The field
  \<open>calls\<close> is a ghost log: every call the hooks make on the client, and every fetch
  issued to the remote store, is appended to it, so that which operations ran, on
  which key and in which order can be stated.
\<close>

datatype client_call =
    CancelQueries query_key
  | GetQueryData query_key
  | SetQueryData query_key "medication list option"
  | InvalidateQueries query_key
  | Fetch query_key

record query_client =
  queryData :: "query_key \<rightharpoonup> medication list"
  dataUpdatedAt :: "query_key \<rightharpoonup> nat"
  isInvalidated :: "query_key set"
  isFetching :: "query_key set"
  calls :: "client_call list"

text \<open>
  Modelled from the spec: \<^verbatim>\<open>get(key)\<close> of section 4.1 (the library's
  \<^verbatim>\<open>getQueryData\<close>): the cached collection or absent; the cache is not changed.
\<close>

definition getQueryData ::
  "query_key \<Rightarrow> query_client \<Rightarrow> medication list option \<times> query_client" where
  "getQueryData k c = (queryData c k, c\<lparr>calls := calls c @ [GetQueryData k]\<rparr>)"

text \<open>
  Modelled from the spec: \<^verbatim>\<open>set(key, collection)\<close> of section 4.1 (the library's
  \<^verbatim>\<open>setQueryData(key, updater)\<close>): a total replacement of the collection by the
  updater's result, stamped with the time of the write and clearing the invalidation
  mark; a fetch in flight is left running. The spec's \<^verbatim>\<open>set\<close> takes a collection; for the
  absent value (\<^verbatim>\<open>undefined\<close>) the library, from its version 4 on (the first under the
  name \<^verbatim>\<open>@tanstack/react-query\<close>), returns before writing: nothing in the cache changes.
\<close>

definition setQueryData ::
  "query_key \<Rightarrow> (medication list option \<Rightarrow> medication list option) \<Rightarrow> nat
     \<Rightarrow> query_client \<Rightarrow> query_client" where
  "setQueryData k updater now c =
     (case updater (queryData c k) of
        None \<Rightarrow> c\<lparr>calls := calls c @ [SetQueryData k None]\<rparr>
      | Some d \<Rightarrow>
          c\<lparr>queryData := (queryData c)(k \<mapsto> d),
            dataUpdatedAt := (dataUpdatedAt c)(k \<mapsto> now),
            isInvalidated := isInvalidated c - {k},
            calls := calls c @ [SetQueryData k (Some d)]\<rparr>)"

text \<open>
  Modelled from the spec: \<^verbatim>\<open>cancelInFlight(key)\<close> of section 4.1 (the library's
  \<^verbatim>\<open>cancelQueries\<close>): after it no fetch is in flight for the key, and the completion of
  the cancelled fetch is a no-op (section 5).
\<close>

definition cancelQueries :: "query_key \<Rightarrow> query_client \<Rightarrow> query_client" where
  "cancelQueries k c =
     c\<lparr>isFetching := isFetching c - {k}, calls := calls c @ [CancelQueries k]\<rparr>"

text \<open>
  Modelled from the spec: \<^verbatim>\<open>invalidate(key)\<close> of section 4.1 (the library's
  \<^verbatim>\<open>invalidateQueries\<close>): marks the entry, does not clear its data.
\<close>

definition invalidateQueries :: "query_key \<Rightarrow> query_client \<Rightarrow> query_client" where
  "invalidateQueries k c =
     c\<lparr>isInvalidated := insert k (isInvalidated c),
       calls := calls c @ [InvalidateQueries k]\<rparr>"

section \<open>useGetMedications\<close>

text \<open>
  \<^verbatim>\<open>queryFn\<close> (lines 15 to 31): throws when there is no user, otherwise selects the
  user's rows ordered by \<^verbatim>\<open>created_at\<close> ascending; the remote store's answer is the
  parameter \<open>select\<close> (\<open>Inl\<close> its error message, \<open>Inr\<close> its rows).
\<close>

fun queryFn ::
  "string option \<Rightarrow> (string \<Rightarrow> string + medication list) \<Rightarrow> error + medication list" where
  "queryFn None select = Inl (Error ''User not authenticated.'')"
| "queryFn (Some u) select =
     (if u = [] then Inl (Error ''User not authenticated.'')
      else (case select u of
              Inl msg \<Rightarrow> Inl (StoreError msg)
            | Inr rows \<Rightarrow> Inr rows))"

text \<open>\<^verbatim>\<open>enabled: !!currentUserId && !authLoading\<close> and \<^verbatim>\<open>staleTime: 5 * 60 * 1000\<close>.\<close>

definition enabled :: "string option \<Rightarrow> bool \<Rightarrow> bool" where
  "enabled uid authLoading = (truthy uid \<and> \<not> authLoading)"

definition staleTime :: nat where
  "staleTime = 5 * 60 * 1000"

text \<open>
  Modelled from the spec: the Query Controller of section 4.2 (the library's
  \<^verbatim>\<open>useQuery\<close>). An entry is stale when it is invalidated, has no data, or its data is
  at least \<open>staleTime\<close> milliseconds old. \<open>load\<close> is one read of the hook at the time
  \<open>now\<close>: disabled, it issues nothing; enabled, it issues a fetch when the entry is
  stale and no fetch is in flight for the key. \<open>fetchSettled\<close> is the completion of the
  fetch in flight for a key: where none is in flight (the fetch was cancelled) it
  changes nothing; a successful one replaces the collection, stamps it and clears the
  invalidation mark; a failed one leaves the data as it was.
\<close>

definition isStale :: "query_key \<Rightarrow> nat \<Rightarrow> query_client \<Rightarrow> bool" where
  "isStale k now c =
     (k \<in> isInvalidated c \<or>
      (case queryData c k of
         None \<Rightarrow> True
       | Some d \<Rightarrow>
           (case dataUpdatedAt c k of
              None \<Rightarrow> True
            | Some t \<Rightarrow> t + staleTime \<le> now)))"

definition load :: "string option \<Rightarrow> bool \<Rightarrow> nat \<Rightarrow> query_client \<Rightarrow> query_client" where
  "load uid authLoading now c =
     (let k = queryKey uid in
      if enabled uid authLoading \<and> isStale k now c \<and> k \<notin> isFetching c
      then c\<lparr>isFetching := insert k (isFetching c), calls := calls c @ [Fetch k]\<rparr>
      else c)"

definition fetchSettled ::
  "query_key \<Rightarrow> error + medication list \<Rightarrow> nat \<Rightarrow> query_client \<Rightarrow> query_client" where
  "fetchSettled k result now c =
     (if k \<in> isFetching c then
        (case result of
           Inl e \<Rightarrow> c\<lparr>isFetching := isFetching c - {k}\<rparr>
         | Inr rows \<Rightarrow>
             c\<lparr>queryData := (queryData c)(k \<mapsto> rows),
               dataUpdatedAt := (dataUpdatedAt c)(k \<mapsto> now),
               isInvalidated := isInvalidated c - {k},
               isFetching := isFetching c - {k}\<rparr>)
      else c)"

section \<open>useAddMedication\<close>

text \<open>
  \<^verbatim>\<open>mutationFn\<close> (lines 44 to 59): throws when there is no user, otherwise inserts
  \<^verbatim>\<open>{...newMed, user_id: currentUserId}\<close>; the remote store's answer is the parameter
  \<open>remoteInsert\<close> (\<open>Inl\<close> its error message, \<open>Inr\<close> the inserted row).
\<close>

fun mutationFn ::
  "string option \<Rightarrow> new_medication \<Rightarrow> (new_medication \<Rightarrow> string \<Rightarrow> string + medication)
     \<Rightarrow> error + medication" where
  "mutationFn None newMed remoteInsert = Inl (Error ''User not authenticated.'')"
| "mutationFn (Some u) newMed remoteInsert =
     (if u = [] then Inl (Error ''User not authenticated.'')
      else (case remoteInsert newMed u of
              Inl msg \<Rightarrow> Inl (StoreError msg)
            | Inr row \<Rightarrow> Inr row))"

text \<open>
  The placeholder of lines 78 to 83. \<open>uuid\<close> is the value of \<^verbatim>\<open>uuidv4()\<close> and \<open>ts\<close>
  that of \<^verbatim>\<open>new Date().toISOString()\<close>: both come from the environment.
\<close>

definition tempMed :: "new_medication \<Rightarrow> string \<Rightarrow> string \<Rightarrow> string \<Rightarrow> medication" where
  "tempMed newMed uuid ts u =
     \<lparr>name = name newMed, dosage = dosage newMed, frequency = frequency newMed,
      id_field = ''optimistic-'' @ uuid, created_at = ts, user_id = u\<rparr>"

text \<open>The updater of line 84: \<^verbatim>\<open>old ? [...old, tempMed] : [tempMed]\<close> (an array is truthy).\<close>

fun appendTemp :: "medication \<Rightarrow> medication list option \<Rightarrow> medication list" where
  "appendTemp t None = [t]"
| "appendTemp t (Some old) = old @ [t]"

text \<open>
  The context object \<^verbatim>\<open>{ previousMedications }\<close>; \<^verbatim>\<open>onMutate\<close> returns it, or
  \<^verbatim>\<open>undefined\<close> (\<open>None\<close>) when it returns early.
\<close>

record mutation_context =
  previousMedications :: "medication list option"

text \<open>
  \<^verbatim>\<open>onMutate\<close> (lines 60 to 89). \<open>now\<close> is the clock at the write, in milliseconds.
\<close>

fun onMutate ::
  "string option \<Rightarrow> new_medication \<Rightarrow> string \<Rightarrow> string \<Rightarrow> nat \<Rightarrow> query_client
     \<Rightarrow> mutation_context option \<times> query_client" where
  "onMutate None newMed uuid ts now c = (None, c)"
| "onMutate (Some u) newMed uuid ts now c =
     (if u = [] then (None, c)
      else
        (let c1 = cancelQueries (queryKey (Some u)) c;
             (previous, c2) = getQueryData (queryKey (Some u)) c1;
             c3 = setQueryData (queryKey (Some u))
                    (\<lambda>old. Some (appendTemp (tempMed newMed uuid ts u) old)) now c2
         in (Some \<lparr>previousMedications = previous\<rparr>, c3)))"

text \<open>
  \<^verbatim>\<open>onError\<close> (lines 90 to 98): writes \<^verbatim>\<open>context?.previousMedications\<close> back under the
  key; the updater is the constant function, the value being given directly.
\<close>

fun contextPrevious :: "mutation_context option \<Rightarrow> medication list option" where
  "contextPrevious None = None"
| "contextPrevious (Some ctx) = previousMedications ctx"

definition onError ::
  "string option \<Rightarrow> mutation_context option \<Rightarrow> nat \<Rightarrow> query_client \<Rightarrow> query_client" where
  "onError uid ctx now c = setQueryData (queryKey uid) (\<lambda>old. contextPrevious ctx) now c"

text \<open>\<^verbatim>\<open>onSettled\<close> (lines 99 to 104).\<close>

definition onSettled :: "string option \<Rightarrow> query_client \<Rightarrow> query_client" where
  "onSettled uid c = invalidateQueries (queryKey uid) c"

text \<open>
  Modelled from the spec: the order in which the Mutation Controller of section 4.3 (the
  library's \<^verbatim>\<open>useMutation\<close>) runs the callbacks of one mutation: \<^verbatim>\<open>onMutate\<close>, then
  \<^verbatim>\<open>mutationFn\<close>, then on failure \<^verbatim>\<open>onError\<close> with the context \<^verbatim>\<open>onMutate\<close> returned,
  then always \<^verbatim>\<open>onSettled\<close>. The hook passes no \<^verbatim>\<open>onSuccess\<close>. \<open>settle\<close> is the part that
  runs once the remote store has answered; \<open>mutate\<close> is the whole protocol with nothing
  else touching the cache in between. \<open>now\<close> is the clock at the optimistic write and
  \<open>later\<close> the clock at settle.
\<close>

definition settle ::
  "string option \<Rightarrow> mutation_context option \<Rightarrow> error + medication \<Rightarrow> nat \<Rightarrow> query_client
     \<Rightarrow> (error + medication) \<times> query_client" where
  "settle uid ctx outcome later c =
     (case outcome of
        Inl e \<Rightarrow> (Inl e, onSettled uid (onError uid ctx later c))
      | Inr row \<Rightarrow> (Inr row, onSettled uid c))"

definition mutate ::
  "string option \<Rightarrow> new_medication \<Rightarrow> (new_medication \<Rightarrow> string \<Rightarrow> string + medication)
     \<Rightarrow> string \<Rightarrow> string \<Rightarrow> nat \<Rightarrow> nat \<Rightarrow> query_client
     \<Rightarrow> (error + medication) \<times> query_client" where
  "mutate uid newMed remoteInsert uuid ts now later c =
     (let (ctx, c1) = onMutate uid newMed uuid ts now c
      in settle uid ctx (mutationFn uid newMed remoteInsert) later c1)"

section \<open>Observations on the client\<close>

text \<open>
  What the client holds for one key: the collection, the time of its last write, the
  invalidation mark and whether a fetch is in flight.
\<close>

definition cacheEntry ::
  "query_key \<Rightarrow> query_client \<Rightarrow> medication list option \<times> nat option \<times> bool \<times> bool" where
  "cacheEntry k c = (queryData c k, dataUpdatedAt c k, k \<in> isInvalidated c, k \<in> isFetching c)"

text \<open>The key a logged call is made on, and the calls logged since an earlier client.\<close>

fun callKey :: "client_call \<Rightarrow> query_key" where
  "callKey (CancelQueries k) = k"
| "callKey (GetQueryData k) = k"
| "callKey (SetQueryData k v) = k"
| "callKey (InvalidateQueries k) = k"
| "callKey (Fetch k) = k"

definition callsSince :: "query_client \<Rightarrow> query_client \<Rightarrow> client_call list" where
  "callsSince c c' = drop (length (calls c)) (calls c')"

text \<open>The number of fetches issued to the remote store so far.\<close>

fun isFetch :: "client_call \<Rightarrow> bool" where
  "isFetch (Fetch k) = True"
| "isFetch other = False"

definition remoteCalls :: "query_client \<Rightarrow> nat" where
  "remoteCalls c = length (filter isFetch (calls c))"

text \<open>Repeated reads of the hook by the same user, one at each of the given times.\<close>

fun reads :: "string option \<Rightarrow> bool \<Rightarrow> nat list \<Rightarrow> query_client \<Rightarrow> query_client" where
  "reads uid authLoading [] c = c"
| "reads uid authLoading (t # ts) c = reads uid authLoading ts (load uid authLoading t c)"

section \<open>Concrete inputs\<close>

text \<open>
  \<^verbatim>\<open>new QueryClient()\<close> (src/main.tsx): the client the application starts with holds no
  entry. The other constants are inputs on which the theorems below are instantiated.
\<close>

definition newClient :: query_client where
  "newClient =
     \<lparr>queryData = Map.empty, dataUpdatedAt = Map.empty, isInvalidated = {},
      isFetching = {}, calls = []\<rparr>"

definition aspirin :: new_medication where
  "aspirin = \<lparr>name = ''Aspirin'', dosage = ''100mg'', frequency = ''Once daily''\<rparr>"

definition ibuprofen :: new_medication where
  "ibuprofen = \<lparr>name = ''Ibuprofen'', dosage = ''200mg'', frequency = ''Twice a day''\<rparr>"

definition storedRow :: medication where
  "storedRow =
     \<lparr>name = ''Metformin'', dosage = ''500mg'', frequency = ''Twice a day'',
      id_field = ''17'', created_at = ''2024-01-01T08:00:00.000Z'', user_id = ''u1''\<rparr>"

text \<open>A client whose entry for the user \<^verbatim>\<open>u1\<close> was fetched at time 1000 and holds one row.\<close>

definition fetchedClient :: query_client where
  "fetchedClient =
     \<lparr>queryData = [queryKey (Some ''u1'') \<mapsto> [storedRow]],
      dataUpdatedAt = [queryKey (Some ''u1'') \<mapsto> 1000],
      isInvalidated = {}, isFetching = {}, calls = []\<rparr>"

text \<open>A remote store that rejects every insert, and one that accepts and assigns the identifier 18.\<close>

definition rejectInsert :: "new_medication \<Rightarrow> string \<Rightarrow> string + medication" where
  "rejectInsert newMed u = Inl ''insert rejected''"

definition acceptInsert :: "new_medication \<Rightarrow> string \<Rightarrow> string + medication" where
  "acceptInsert newMed u =
     Inr \<lparr>name = name newMed, dosage = dosage newMed, frequency = frequency newMed,
          id_field = ''18'', created_at = ''2024-01-02T09:00:00.000Z'', user_id = u\<rparr>"




text \<open>
  Timestamps in the form \<^verbatim>\<open>toISOString\<close> yields are compared as strings, character by
  character: \<open>isoLe a b\<close> reads "\<open>a\<close> is not later than \<open>b\<close>".
\<close>

definition isoLe :: "string \<Rightarrow> string \<Rightarrow> bool" where
  "isoLe a b = (a = b \<or> (a, b) \<in> lexord {(x, y). of_char x < (of_char y :: nat)})"

section \<open>Basic facts about the client operations\<close>

lemma queryKey_inject: "(queryKey a = queryKey b) = (a = b)"
  by (simp add: queryKey_def)

lemma onMutate_falsy: "\<not> truthy uid \<Longrightarrow> onMutate uid newMed uuid ts now c = (None, c)"
  by (cases uid) simp_all

lemma onMutate_truthy:
  assumes "u \<noteq> []"
  shows "onMutate (Some u) newMed uuid ts now c =
    (Some \<lparr>previousMedications = queryData c (queryKey (Some u))\<rparr>,
     c\<lparr>queryData := (queryData c)(queryKey (Some u) \<mapsto>
          appendTemp (tempMed newMed uuid ts u) (queryData c (queryKey (Some u)))),
       dataUpdatedAt := (dataUpdatedAt c)(queryKey (Some u) \<mapsto> now),
       isInvalidated := isInvalidated c - {queryKey (Some u)},
       isFetching := isFetching c - {queryKey (Some u)},
       calls := calls c @
         [CancelQueries (queryKey (Some u)), GetQueryData (queryKey (Some u)),
          SetQueryData (queryKey (Some u))
            (Some (appendTemp (tempMed newMed uuid ts u) (queryData c (queryKey (Some u)))))]\<rparr>)"
  using assms by (simp add: cancelQueries_def getQueryData_def setQueryData_def)

declare onMutate.simps [simp del]

lemma onError_absent:
  "contextPrevious ctx = None \<Longrightarrow>
   onError uid ctx now c = c\<lparr>calls := calls c @ [SetQueryData (queryKey uid) None]\<rparr>"
  by (simp add: onError_def setQueryData_def)

lemma onError_present:
  "contextPrevious ctx = Some xs \<Longrightarrow>
   onError uid ctx now c =
     c\<lparr>queryData := (queryData c)(queryKey uid \<mapsto> xs),
       dataUpdatedAt := (dataUpdatedAt c)(queryKey uid \<mapsto> now),
       isInvalidated := isInvalidated c - {queryKey uid},
       calls := calls c @ [SetQueryData (queryKey uid) (Some xs)]\<rparr>"
  by (simp add: onError_def setQueryData_def)

lemma onSettled_fields:
  "queryData (onSettled uid c) = queryData c"
  "dataUpdatedAt (onSettled uid c) = dataUpdatedAt c"
  "isInvalidated (onSettled uid c) = insert (queryKey uid) (isInvalidated c)"
  "isFetching (onSettled uid c) = isFetching c"
  "calls (onSettled uid c) = calls c @ [InvalidateQueries (queryKey uid)]"
  by (simp_all add: onSettled_def invalidateQueries_def)

lemma sorted_wrt_snoc:
  "sorted_wrt P (xs @ [x]) = (sorted_wrt P xs \<and> (\<forall>y\<in>set xs. P y x))"
  by (simp add: sorted_wrt_append)

lemma settle_failure_present:
  "contextPrevious ctx = Some xs \<Longrightarrow>
   queryData (snd (settle uid ctx (Inl e) later c)) (queryKey uid) = Some xs"
  by (simp add: settle_def onSettled_fields onError_present)

lemma settle_failure_absent:
  "contextPrevious ctx = None \<Longrightarrow>
   queryData (snd (settle uid ctx (Inl e) later c)) = queryData c"
  by (simp add: settle_def onSettled_fields onError_absent)

lemma settle_invalidates:
  "queryKey uid \<in> isInvalidated (snd (settle uid ctx outcome later c))"
  by (cases outcome) (simp_all add: settle_def onSettled_fields)

lemma settle_isFetching:
  "isFetching (snd (settle uid ctx outcome later c)) = isFetching c"
  by (cases outcome; cases "contextPrevious ctx")
     (simp_all add: settle_def onSettled_fields onError_absent onError_present)

lemma mutate_phases:
  "mutate uid newMed remoteInsert uuid ts now later c =
     settle uid (fst (onMutate uid newMed uuid ts now c))
       (mutationFn uid newMed remoteInsert) later
       (snd (onMutate uid newMed uuid ts now c))"
  by (simp add: mutate_def split_def Let_def)

lemma mutationFn_rejected:
  "u \<noteq> [] \<Longrightarrow> remoteInsert newMed u = Inl msg \<Longrightarrow>
   mutationFn (Some u) newMed remoteInsert = Inl (StoreError msg)"
  by simp

lemma mutate_failure_restores_present:
  assumes "u \<noteq> []"
    and "queryData c (queryKey (Some u)) = Some xs"
    and "remoteInsert newMed u = Inl msg"
  shows "queryData (snd (mutate (Some u) newMed remoteInsert uuid ts now later c))
      (queryKey (Some u)) = Some xs"
proof -
  have "contextPrevious (fst (onMutate (Some u) newMed uuid ts now c)) = Some xs"
    using assms(1,2) by (simp add: onMutate_truthy)
  then show ?thesis
    by (simp only: mutate_phases
          mutationFn_rejected [where remoteInsert = remoteInsert and newMed = newMed, OF assms(1,3)]
          settle_failure_present)
qed

lemma load_stale:
  "enabled uid authLoading \<Longrightarrow> queryKey uid \<in> isInvalidated c \<Longrightarrow>
   queryKey uid \<notin> isFetching c \<Longrightarrow>
   load uid authLoading t c =
     c\<lparr>isFetching := insert (queryKey uid) (isFetching c),
       calls := calls c @ [Fetch (queryKey uid)]\<rparr>"
  by (simp add: load_def isStale_def Let_def)

lemma fetchSettled_success:
  "k \<in> isFetching c \<Longrightarrow>
   fetchSettled k (Inr rows) t c =
     c\<lparr>queryData := (queryData c)(k \<mapsto> rows),
       dataUpdatedAt := (dataUpdatedAt c)(k \<mapsto> t),
       isInvalidated := isInvalidated c - {k},
       isFetching := isFetching c - {k}\<rparr>"
  by (simp add: fetchSettled_def)

lemma fetchSettled_cancelled: "k \<notin> isFetching c \<Longrightarrow> fetchSettled k result t c = c"
  by (simp add: fetchSettled_def)

lemma setQueryData_calls:
  "calls (setQueryData k f now c) = calls c @ [SetQueryData k (f (queryData c k))]"
  by (cases "f (queryData c k)") (simp_all add: setQueryData_def)

lemma setQueryData_isFetching: "isFetching (setQueryData k f now c) = isFetching c"
  by (cases "f (queryData c k)") (simp_all add: setQueryData_def)

lemma setQueryData_other:
  "k' \<noteq> k \<Longrightarrow> cacheEntry k' (setQueryData k f now c) = cacheEntry k' c"
  by (cases "f (queryData c k)") (simp_all add: setQueryData_def cacheEntry_def)

lemma cancelQueries_other: "k' \<noteq> k \<Longrightarrow> cacheEntry k' (cancelQueries k c) = cacheEntry k' c"
  by (simp add: cancelQueries_def cacheEntry_def)

lemma getQueryData_other: "cacheEntry k' (snd (getQueryData k c)) = cacheEntry k' c"
  by (simp add: getQueryData_def cacheEntry_def)

lemma invalidateQueries_other:
  "k' \<noteq> k \<Longrightarrow> cacheEntry k' (invalidateQueries k c) = cacheEntry k' c"
  by (simp add: invalidateQueries_def cacheEntry_def)

lemma onMutate_other:
  "k' \<noteq> queryKey uid \<Longrightarrow>
   cacheEntry k' (snd (onMutate uid newMed uuid ts now c)) = cacheEntry k' c"
proof (cases "truthy uid")
  case False
  then show ?thesis by (simp add: onMutate_falsy)
next
  case True
  then obtain u where "uid = Some u" "u \<noteq> []"
    by (cases uid) auto
  moreover assume "k' \<noteq> queryKey uid"
  ultimately show ?thesis
    by (simp add: onMutate_truthy cacheEntry_def)
qed

lemma onError_other:
  "k' \<noteq> queryKey uid \<Longrightarrow> cacheEntry k' (onError uid ctx later c) = cacheEntry k' c"
  by (simp add: onError_def setQueryData_other)

lemma onSettled_other:
  "k' \<noteq> queryKey uid \<Longrightarrow> cacheEntry k' (onSettled uid c) = cacheEntry k' c"
  by (simp add: onSettled_def invalidateQueries_other)

lemma settle_other:
  "k' \<noteq> queryKey uid \<Longrightarrow>
   cacheEntry k' (snd (settle uid ctx outcome later c)) = cacheEntry k' c"
  by (cases outcome) (simp_all add: settle_def onSettled_other onError_other)

lemma mutate_other:
  "k' \<noteq> queryKey uid \<Longrightarrow>
   cacheEntry k' (snd (mutate uid newMed remoteInsert uuid ts now later c)) = cacheEntry k' c"
  by (simp add: mutate_phases settle_other onMutate_other)

lemma load_other:
  "k' \<noteq> queryKey uid \<Longrightarrow> cacheEntry k' (load uid authLoading t c) = cacheEntry k' c"
  by (simp add: load_def Let_def cacheEntry_def)

lemma fetchSettled_other:
  "k' \<noteq> k \<Longrightarrow> cacheEntry k' (fetchSettled k result t c) = cacheEntry k' c"
  by (cases result) (simp_all add: fetchSettled_def cacheEntry_def)

lemma onMutate_calls:
  "\<exists>new. calls (snd (onMutate uid newMed uuid ts now c)) = calls c @ new \<and>
     (\<forall>call\<in>set new. callKey call = queryKey uid)"
proof (cases "truthy uid")
  case False
  then show ?thesis by (simp add: onMutate_falsy)
next
  case True
  then obtain u where "uid = Some u" "u \<noteq> []"
    by (cases uid) auto
  then show ?thesis
    by (simp add: onMutate_truthy)
qed

lemma settle_calls:
  "calls (snd (settle uid ctx outcome later c)) =
     calls c @
       (case outcome of
          Inl e \<Rightarrow> [SetQueryData (queryKey uid) (contextPrevious ctx),
                    InvalidateQueries (queryKey uid)]
        | Inr row \<Rightarrow> [InvalidateQueries (queryKey uid)])"
  by (cases outcome) (simp_all add: settle_def onSettled_fields onError_def setQueryData_calls)

lemma callsSince_append: "calls c' = calls c @ new \<Longrightarrow> callsSince c c' = new"
  by (simp add: callsSince_def)

lemma mutate_callsSince:
  "\<forall>call\<in>set (callsSince c (snd (mutate uid newMed remoteInsert uuid ts now later c))).
     callKey call = queryKey uid"
proof -
  let ?m = "onMutate uid newMed uuid ts now c"
  obtain new1 where n1: "calls (snd ?m) = calls c @ new1"
    and k1: "\<forall>call\<in>set new1. callKey call = queryKey uid"
    using onMutate_calls [of uid newMed uuid ts now c] by blast
  obtain new2 where
    n2: "calls (snd (settle uid (fst ?m) (mutationFn uid newMed remoteInsert) later (snd ?m)))
      = calls (snd ?m) @ new2"
    and k2: "\<forall>call\<in>set new2. callKey call = queryKey uid"
    by (cases "mutationFn uid newMed remoteInsert") (simp_all add: settle_calls)
  have "callsSince c (snd (mutate uid newMed remoteInsert uuid ts now later c)) = new1 @ new2"
    by (rule callsSince_append) (simp only: mutate_phases n2 n1 append_assoc)
  with k1 k2 show ?thesis by auto
qed

lemma load_cases:
  "load uid authLoading t c = c \<or>
   load uid authLoading t c =
     c\<lparr>isFetching := insert (queryKey uid) (isFetching c),
       calls := calls c @ [Fetch (queryKey uid)]\<rparr>"
  by (simp add: load_def Let_def)

lemma load_callsSince:
  "\<forall>call\<in>set (callsSince c (load uid authLoading t c)). callKey call = queryKey uid"
  using load_cases [of uid authLoading t c] by (auto simp: callsSince_def)

lemma load_in_flight: "queryKey uid \<in> isFetching c \<Longrightarrow> load uid authLoading t c = c"
  by (simp add: load_def)

lemma load_fresh:
  "queryKey uid \<notin> isInvalidated c \<Longrightarrow> queryData c (queryKey uid) = Some d \<Longrightarrow>
   dataUpdatedAt c (queryKey uid) = Some t0 \<Longrightarrow> t < t0 + staleTime \<Longrightarrow>
   load uid authLoading t c = c"
  by (simp add: load_def isStale_def)

lemma reads_in_flight: "queryKey uid \<in> isFetching c \<Longrightarrow> reads uid authLoading ts c = c"
  by (induction ts) (simp_all add: load_in_flight)

lemma reads_fresh:
  "queryKey uid \<notin> isInvalidated c \<Longrightarrow> queryData c (queryKey uid) = Some d \<Longrightarrow>
   dataUpdatedAt c (queryKey uid) = Some t0 \<Longrightarrow> \<forall>t\<in>set ts. t < t0 + staleTime \<Longrightarrow>
   reads uid authLoading ts c = c"
  by (induction ts) (simp_all add: load_fresh)

lemma reads_cases:
  "reads uid authLoading ts c = c \<or>
   reads uid authLoading ts c =
     c\<lparr>isFetching := insert (queryKey uid) (isFetching c),
       calls := calls c @ [Fetch (queryKey uid)]\<rparr>"
proof (induction ts)
  case Nil
  then show ?case by simp
next
  case (Cons t ts)
  from load_cases [of uid authLoading t c] show ?case
  proof
    assume "load uid authLoading t c = c"
    with Cons show ?thesis by simp
  next
    assume issued: "load uid authLoading t c =
      c\<lparr>isFetching := insert (queryKey uid) (isFetching c),
        calls := calls c @ [Fetch (queryKey uid)]\<rparr>"
    then have "queryKey uid \<in> isFetching (load uid authLoading t c)"
      by simp
    then have "reads uid authLoading ts (load uid authLoading t c) = load uid authLoading t c"
      by (rule reads_in_flight)
    with issued show ?thesis by simp
  qed
qed

lemma reads_remoteCalls: "remoteCalls (reads uid authLoading ts c) \<le> remoteCalls c + 1"
  using reads_cases [of uid authLoading ts c] by (auto simp: remoteCalls_def)

lemma queryFn_selected:
  "u \<noteq> [] \<Longrightarrow> select u = Inr rows \<Longrightarrow> queryFn (Some u) select = Inr rows"
  by simp





section \<open>The speculative apply\<close>

text \<open>
  C7. For a signed-in user, the optimistic write of \<open>onMutate\<close> only appends: an absent
  collection becomes the one-element collection holding the placeholder, and a cached
  collection \<open>old\<close> becomes \<open>old\<close>, unchanged and in its order, followed by the
  placeholder. The order by \<open>created_at\<close> is kept whenever the placeholder's timestamp
  is not before any cached record's: for every relation \<open>le\<close> read as "not later than",
  a collection sorted with respect to \<open>le\<close> on \<open>created_at\<close> stays sorted.
\<close>

theorem C7_speculative_apply_appends:
  assumes "u \<noteq> []"
  shows
    "(queryData c (queryKey (Some u)) = None \<longrightarrow>
        queryData (snd (onMutate (Some u) newMed uuid ts now c)) (queryKey (Some u))
          = Some [tempMed newMed uuid ts u]) \<and>
     (\<forall>old. queryData c (queryKey (Some u)) = Some old \<longrightarrow>
        queryData (snd (onMutate (Some u) newMed uuid ts now c)) (queryKey (Some u))
          = Some (old @ [tempMed newMed uuid ts u]) \<and>
        (sorted_wrt (\<lambda>a b. le (created_at a) (created_at b)) old \<and>
         (\<forall>m\<in>set old. le (created_at m) ts) \<longrightarrow>
           sorted_wrt (\<lambda>a b. le (created_at a) (created_at b))
             (old @ [tempMed newMed uuid ts u])))"
proof -
  have "queryData (snd (onMutate (Some u) newMed uuid ts now c)) (queryKey (Some u))
      = Some (appendTemp (tempMed newMed uuid ts u) (queryData c (queryKey (Some u))))"
    using assms by (simp add: onMutate_truthy)
  moreover have "created_at (tempMed newMed uuid ts u) = ts"
    by (simp add: tempMed_def)
  ultimately show ?thesis
    by (auto simp: sorted_wrt_snoc)
qed

text \<open>
  On the client that holds the row created at 08:00 on 1 January, the user \<^verbatim>\<open>u1\<close> adds
  aspirin at 09:00 on 2 January; timestamps are compared as strings.
\<close>

theorem C7_speculative_apply_appends_witness:
  "''u1'' \<noteq> [] \<and>
   queryData newClient (queryKey (Some ''u1'')) = None \<and>
   queryData (snd (onMutate (Some ''u1'') aspirin ''a1'' ''2024-01-02T09:00:00.000Z'' 5000 newClient))
     (queryKey (Some ''u1'')) = Some [tempMed aspirin ''a1'' ''2024-01-02T09:00:00.000Z'' ''u1''] \<and>
   queryData fetchedClient (queryKey (Some ''u1'')) = Some [storedRow] \<and>
   queryData (snd (onMutate (Some ''u1'') aspirin ''a1'' ''2024-01-02T09:00:00.000Z'' 5000 fetchedClient))
     (queryKey (Some ''u1''))
     = Some [storedRow, tempMed aspirin ''a1'' ''2024-01-02T09:00:00.000Z'' ''u1''] \<and>
   sorted_wrt (\<lambda>a b. isoLe (created_at a) (created_at b)) [storedRow] \<and>
   isoLe (created_at storedRow) ''2024-01-02T09:00:00.000Z'' \<and>
   sorted_wrt (\<lambda>a b. isoLe (created_at a) (created_at b))
     [storedRow, tempMed aspirin ''a1'' ''2024-01-02T09:00:00.000Z'' ''u1'']"
proof -
  have u: "''u1'' \<noteq> []" by simp
  have a: "queryData newClient (queryKey (Some ''u1'')) = None"
    by (simp add: newClient_def)
  have f: "queryData fetchedClient (queryKey (Some ''u1'')) = Some [storedRow]"
    by (simp add: fetchedClient_def)
  have b: "isoLe (created_at storedRow) ''2024-01-02T09:00:00.000Z''"
    by (simp add: storedRow_def isoLe_def)
  show ?thesis
    using u a f b
      C7_speculative_apply_appends
        [OF u, of newClient aspirin "''a1''" "''2024-01-02T09:00:00.000Z''" 5000 isoLe]
      C7_speculative_apply_appends
        [OF u, of fetchedClient aspirin "''a1''" "''2024-01-02T09:00:00.000Z''" 5000 isoLe]
    by simp
qed

section \<open>The placeholder\<close>

text \<open>
  C6. The record \<open>onMutate\<close> appends for a signed-in user \<open>u\<close> is \<open>tempMed\<close>: its
  identifier is the literal \<^verbatim>\<open>optimistic-\<close> followed by the token \<^verbatim>\<open>uuidv4()\<close> returned,
  so it differs from every identifier that does not start with that literal and two
  placeholders share an identifier only when they were given the same token; its
  \<open>created_at\<close> is the client's timestamp, its owner is \<open>u\<close>, and its domain fields
  are the caller's.
\<close>

theorem C6_placeholder_record:
  assumes "u \<noteq> []"
  shows
    "queryData (snd (onMutate (Some u) newMed uuid ts now c)) (queryKey (Some u))
       = Some (appendTemp (tempMed newMed uuid ts u) (queryData c (queryKey (Some u)))) \<and>
     last (appendTemp (tempMed newMed uuid ts u) (queryData c (queryKey (Some u))))
       = tempMed newMed uuid ts u \<and>
     id_field (tempMed newMed uuid ts u) = ''optimistic-'' @ uuid \<and>
     (\<forall>sid. \<not> prefix ''optimistic-'' sid \<longrightarrow> id_field (tempMed newMed uuid ts u) \<noteq> sid) \<and>
     (\<forall>newMed' uuid' ts' u'.
        id_field (tempMed newMed' uuid' ts' u') = id_field (tempMed newMed uuid ts u)
          \<longrightarrow> uuid' = uuid) \<and>
     created_at (tempMed newMed uuid ts u) = ts \<and>
     user_id (tempMed newMed uuid ts u) = u \<and>
     name (tempMed newMed uuid ts u) = name newMed \<and>
     dosage (tempMed newMed uuid ts u) = dosage newMed \<and>
     frequency (tempMed newMed uuid ts u) = frequency newMed"
proof -
  have "last (appendTemp t old) = t" for t :: medication and old
    by (cases old) simp_all
  moreover have "id_field (tempMed newMed uuid ts u) \<noteq> sid"
    if "\<not> prefix ''optimistic-'' sid" for sid
    using that by (auto simp: tempMed_def)
  ultimately show ?thesis
    using assms by (simp add: onMutate_truthy) (simp add: tempMed_def)
qed

theorem C6_placeholder_record_witness:
  "''u1'' \<noteq> [] \<and>
   queryData (snd (onMutate (Some ''u1'') aspirin ''a1'' ''2024-01-02T09:00:00.000Z'' 5000 fetchedClient))
     (queryKey (Some ''u1''))
     = Some [storedRow,
         \<lparr>name = ''Aspirin'', dosage = ''100mg'', frequency = ''Once daily'',
          id_field = ''optimistic-a1'', created_at = ''2024-01-02T09:00:00.000Z'',
          user_id = ''u1''\<rparr>] \<and>
   \<not> prefix ''optimistic-'' (id_field storedRow) \<and>
   id_field (tempMed aspirin ''a1'' ''2024-01-02T09:00:00.000Z'' ''u1'') \<noteq> id_field storedRow"
proof -
  have u: "''u1'' \<noteq> []" by simp
  have p: "\<not> prefix ''optimistic-'' (id_field storedRow)"
    by (simp add: storedRow_def)
  show ?thesis
    using u p
      C6_placeholder_record
        [OF u, of aspirin "''a1''" "''2024-01-02T09:00:00.000Z''" 5000 fetchedClient]
    by (simp add: fetchedClient_def tempMed_def aspirin_def)
qed

section \<open>Rollback\<close>

text \<open>
  C1, at the input where the code departs from it. On the client that holds no entry
  for the user \<^verbatim>\<open>u1\<close>, the user adds aspirin and the remote store rejects the insert.
  The snapshot is the absent value; \<open>onError\<close> hands it to \<open>setQueryData\<close>, which
  writes nothing; after settle the entry is the one-element collection holding the
  placeholder, not the absent snapshot. (Where the snapshot is a collection, the
  rollback is exact: \<open>mutate_failure_restores_present\<close>.)
\<close>

theorem C1_rollback_of_absent_snapshot:
  "queryData newClient (queryKey (Some ''u1'')) = None \<and>
   fst (onMutate (Some ''u1'') aspirin ''a1'' ''2024-01-02T09:00:00.000Z'' 5000 newClient)
     = Some \<lparr>previousMedications = None\<rparr> \<and>
   fst (mutate (Some ''u1'') aspirin rejectInsert ''a1'' ''2024-01-02T09:00:00.000Z'' 5000 6000
          newClient) = Inl (StoreError ''insert rejected'') \<and>
   queryData
     (snd (mutate (Some ''u1'') aspirin rejectInsert ''a1'' ''2024-01-02T09:00:00.000Z'' 5000 6000
             newClient)) (queryKey (Some ''u1''))
     = Some [tempMed aspirin ''a1'' ''2024-01-02T09:00:00.000Z'' ''u1'']"
proof -
  let ?m = "onMutate (Some ''u1'') aspirin ''a1'' ''2024-01-02T09:00:00.000Z'' 5000 newClient"
  have a: "queryData newClient (queryKey (Some ''u1'')) = None"
    by (simp add: newClient_def)
  have r: "mutationFn (Some ''u1'') aspirin rejectInsert = Inl (StoreError ''insert rejected'')"
    by (simp add: rejectInsert_def)
  have ctx: "fst ?m = Some \<lparr>previousMedications = None\<rparr>"
    by (simp add: onMutate_truthy a)
  have applied: "queryData (snd ?m) (queryKey (Some ''u1''))
      = Some [tempMed aspirin ''a1'' ''2024-01-02T09:00:00.000Z'' ''u1'']"
    by (simp add: onMutate_truthy a)
  have m: "mutate (Some ''u1'') aspirin rejectInsert ''a1'' ''2024-01-02T09:00:00.000Z'' 5000 6000
        newClient
      = settle (Some ''u1'') (fst ?m) (Inl (StoreError ''insert rejected'')) 6000 (snd ?m)"
    by (simp only: mutate_phases r)
  have res: "fst (settle (Some ''u1'') (fst ?m) (Inl (StoreError ''insert rejected'')) 6000 (snd ?m))
      = Inl (StoreError ''insert rejected'')"
    by (simp add: settle_def)
  have kept: "queryData
       (snd (settle (Some ''u1'') (fst ?m) (Inl (StoreError ''insert rejected'')) 6000 (snd ?m)))
      = queryData (snd ?m)"
    by (rule settle_failure_absent) (simp add: ctx)
  show ?thesis
    using a ctx applied res kept by (simp only: m)
qed

text \<open>
  C10. A signed-in user mutates while the entry of the key is absent, and the remote
  store rejects the insert. The retained snapshot is the absent value; the rollback
  write of \<open>onError\<close> changes nothing in the cache (only the call is logged); after
  settle the entry still holds exactly the placeholder and is marked invalidated. The
  placeholder goes when the refetch that the invalidation causes completes: the next
  enabled read issues a fetch, whatever the time, and its successful completion
  replaces the collection by the rows of the remote store.
\<close>

theorem C10_absent_snapshot_keeps_placeholder:
  assumes "u \<noteq> []"
    and "queryData c (queryKey (Some u)) = None"
    and "remoteInsert newMed u = Inl msg"
  shows
    "fst (onMutate (Some u) newMed uuid ts now c) = Some \<lparr>previousMedications = None\<rparr> \<and>
     onError (Some u) (fst (onMutate (Some u) newMed uuid ts now c)) later
         (snd (onMutate (Some u) newMed uuid ts now c))
       = (snd (onMutate (Some u) newMed uuid ts now c))
           \<lparr>calls := calls (snd (onMutate (Some u) newMed uuid ts now c))
              @ [SetQueryData (queryKey (Some u)) None]\<rparr> \<and>
     fst (mutate (Some u) newMed remoteInsert uuid ts now later c) = Inl (StoreError msg) \<and>
     queryData (snd (mutate (Some u) newMed remoteInsert uuid ts now later c)) (queryKey (Some u))
       = Some [tempMed newMed uuid ts u] \<and>
     queryKey (Some u) \<in> isInvalidated (snd (mutate (Some u) newMed remoteInsert uuid ts now later c)) \<and>
     calls (load (Some u) False t (snd (mutate (Some u) newMed remoteInsert uuid ts now later c)))
       = calls (snd (mutate (Some u) newMed remoteInsert uuid ts now later c))
           @ [Fetch (queryKey (Some u))] \<and>
     queryData
       (fetchSettled (queryKey (Some u)) (Inr rows) t'
          (load (Some u) False t (snd (mutate (Some u) newMed remoteInsert uuid ts now later c))))
       (queryKey (Some u)) = Some rows"
proof -
  let ?k = "queryKey (Some u)"
  let ?m = "onMutate (Some u) newMed uuid ts now c"
  let ?c' = "snd (mutate (Some u) newMed remoteInsert uuid ts now later c)"
  have ctx: "fst ?m = Some \<lparr>previousMedications = None\<rparr>"
    using assms(1,2) by (simp add: onMutate_truthy)
  have prev: "contextPrevious (fst ?m) = None"
    by (simp add: ctx)
  have applied: "queryData (snd ?m) ?k = Some [tempMed newMed uuid ts u]"
    using assms(1,2) by (simp add: onMutate_truthy)
  have idle: "?k \<notin> isFetching (snd ?m)"
    using assms(1) by (simp add: onMutate_truthy)
  have m: "mutate (Some u) newMed remoteInsert uuid ts now later c
      = settle (Some u) (fst ?m) (Inl (StoreError msg)) later (snd ?m)"
    by (simp only: mutate_phases
          mutationFn_rejected [where remoteInsert = remoteInsert and newMed = newMed, OF assms(1,3)])
  have res: "fst (mutate (Some u) newMed remoteInsert uuid ts now later c) = Inl (StoreError msg)"
    by (simp add: m settle_def)
  have kept: "queryData ?c' ?k = Some [tempMed newMed uuid ts u]"
    by (simp add: m settle_failure_absent [OF prev] applied)
  have inv: "?k \<in> isInvalidated ?c'"
    by (simp only: m settle_invalidates)
  have idle': "?k \<notin> isFetching ?c'"
    using idle by (simp only: m settle_isFetching) simp
  have en: "enabled (Some u) False"
    using assms(1) by (simp add: enabled_def)
  have ld: "load (Some u) False t ?c'
      = ?c'\<lparr>isFetching := insert ?k (isFetching ?c'), calls := calls ?c' @ [Fetch ?k]\<rparr>"
    by (rule load_stale [OF en inv idle'])
  have "calls (load (Some u) False t ?c') = calls ?c' @ [Fetch ?k]"
    by (simp add: ld)
  moreover have "queryData (fetchSettled ?k (Inr rows) t' (load (Some u) False t ?c')) ?k = Some rows"
    by (simp add: ld fetchSettled_success)
  ultimately show ?thesis
    using ctx onError_absent [OF prev] res kept inv by simp
qed

theorem C10_absent_snapshot_keeps_placeholder_witness:
  "''u1'' \<noteq> [] \<and>
   queryData newClient (queryKey (Some ''u1'')) = None \<and>
   rejectInsert aspirin ''u1'' = Inl ''insert rejected'' \<and>
   queryData
     (snd (mutate (Some ''u1'') aspirin rejectInsert ''a1'' ''2024-01-02T09:00:00.000Z'' 5000 6000
             newClient)) (queryKey (Some ''u1''))
     = Some [tempMed aspirin ''a1'' ''2024-01-02T09:00:00.000Z'' ''u1''] \<and>
   queryData
     (fetchSettled (queryKey (Some ''u1'')) (Inr []) 7000
        (load (Some ''u1'') False 6500
           (snd (mutate (Some ''u1'') aspirin rejectInsert ''a1'' ''2024-01-02T09:00:00.000Z''
                   5000 6000 newClient))))
     (queryKey (Some ''u1'')) = Some []"
proof -
  have u: "''u1'' \<noteq> []" by simp
  have a: "queryData newClient (queryKey (Some ''u1'')) = None"
    by (simp add: newClient_def)
  have r: "rejectInsert aspirin ''u1'' = Inl ''insert rejected''"
    by (simp add: rejectInsert_def)
  show ?thesis
    using u a r
      C10_absent_snapshot_keeps_placeholder
        [where remoteInsert = rejectInsert and newMed = aspirin and c = newClient
           and uuid = "''a1''" and ts = "''2024-01-02T09:00:00.000Z''"
           and now = 5000 and later = 6000 and t = 6500 and rows = "[]" and t' = 7000,
         OF u a r]
    by simp
qed

text \<open>
  C8. Two mutations of the same signed-in user, the second starting while the first is
  pending. Each \<open>onMutate\<close> reads its own snapshot: the first the collection as it was,
  the second the collection after the first's optimistic write, which ends with the
  first placeholder. If the second fails, its rollback writes that snapshot back: the
  entry after its settle still contains the first placeholder, and no longer the
  second.
\<close>

theorem C8_second_snapshot_contains_first_placeholder:
  fixes c :: query_client
    and newMed1 newMed2 :: new_medication
    and u uuid1 uuid2 ts1 ts2 :: string
    and now1 now2 :: nat
  assumes "u \<noteq> []"
  defines "k \<equiv> queryKey (Some u)"
    and "p1 \<equiv> tempMed newMed1 uuid1 ts1 u"
    and "p2 \<equiv> tempMed newMed2 uuid2 ts2 u"
    and "m1 \<equiv> onMutate (Some u) newMed1 uuid1 ts1 now1 c"
  defines "m2 \<equiv> onMutate (Some u) newMed2 uuid2 ts2 now2 (snd m1)"
  shows
    "contextPrevious (fst m1) = queryData c k \<and>
     contextPrevious (fst m2) = Some (appendTemp p1 (queryData c k)) \<and>
     queryData (snd m2) k = Some (appendTemp p1 (queryData c k) @ [p2]) \<and>
     queryData (snd (settle (Some u) (fst m2) (Inl e) later (snd m2))) k
       = Some (appendTemp p1 (queryData c k)) \<and>
     p1 \<in> set (appendTemp p1 (queryData c k))"
proof -
  have mem: "t \<in> set (appendTemp t old)" for t :: medication and old
    by (cases old) simp_all
  have s1: "contextPrevious (fst m1) = queryData c k"
    using assms(1) by (simp add: m1_def k_def onMutate_truthy)
  have d1: "queryData (snd m1) k = Some (appendTemp p1 (queryData c k))"
    using assms(1) by (simp add: m1_def k_def p1_def onMutate_truthy)
  have s2: "contextPrevious (fst m2) = Some (appendTemp p1 (queryData c k))"
    using assms(1) d1 by (simp add: m2_def k_def onMutate_truthy)
  have d2: "queryData (snd m2) k = Some (appendTemp p1 (queryData c k) @ [p2])"
    using assms(1) d1 by (simp add: m2_def k_def p2_def onMutate_truthy)
  have rb: "queryData (snd (settle (Some u) (fst m2) (Inl e) later (snd m2))) k
      = Some (appendTemp p1 (queryData c k))"
    unfolding k_def by (rule settle_failure_present) (simp add: s2 k_def)
  show ?thesis
    using s1 s2 d2 rb mem by simp
qed

theorem C8_second_snapshot_contains_first_placeholder_witness:
  "''u1'' \<noteq> [] \<and>
   contextPrevious
     (fst (onMutate (Some ''u1'') ibuprofen ''b2'' ''2024-01-02T09:00:01.000Z'' 5100
        (snd (onMutate (Some ''u1'') aspirin ''a1'' ''2024-01-02T09:00:00.000Z'' 5000 fetchedClient))))
     = Some [storedRow, tempMed aspirin ''a1'' ''2024-01-02T09:00:00.000Z'' ''u1''] \<and>
   queryData
     (snd (settle (Some ''u1'')
        (fst (onMutate (Some ''u1'') ibuprofen ''b2'' ''2024-01-02T09:00:01.000Z'' 5100
           (snd (onMutate (Some ''u1'') aspirin ''a1'' ''2024-01-02T09:00:00.000Z'' 5000
              fetchedClient))))
        (Inl (StoreError ''insert rejected'')) 6000
        (snd (onMutate (Some ''u1'') ibuprofen ''b2'' ''2024-01-02T09:00:01.000Z'' 5100
           (snd (onMutate (Some ''u1'') aspirin ''a1'' ''2024-01-02T09:00:00.000Z'' 5000
              fetchedClient))))))
     (queryKey (Some ''u1''))
     = Some [storedRow, tempMed aspirin ''a1'' ''2024-01-02T09:00:00.000Z'' ''u1'']"
proof -
  have u: "''u1'' \<noteq> []" by simp
  have f: "queryData fetchedClient (queryKey (Some ''u1'')) = Some [storedRow]"
    by (simp add: fetchedClient_def)
  show ?thesis
    using u
      C8_second_snapshot_contains_first_placeholder
        [OF u, of aspirin "''a1''" "''2024-01-02T09:00:00.000Z''" 5000 fetchedClient
           ibuprofen "''b2''" "''2024-01-02T09:00:01.000Z''" 5100
           "StoreError ''insert rejected''" 6000]
    by (simp add: f)
qed

section \<open>The unauthenticated mutation\<close>

text \<open>
  C2, as amended. When the user identifier is not resolved (\<^verbatim>\<open>undefined\<close>, or falsy as the empty
  string is), the mutation fails with the error \<^verbatim>\<open>User not authenticated.\<close> whatever the
  remote store would answer; \<open>onMutate\<close> returns at once with no context and the
  client as it was; after settle the collections, their write times and the fetches
  in flight are those of before, for every key. Among the calls the mutation makes
  there is no cancel, no read of a snapshot and no write of a collection, on any key:
  the two calls of settle are the rollback call with the absent value, which writes
  nothing, and the invalidation, which marks the key of the unresolved user.
\<close>

theorem C2_unauthenticated_mutation:
  assumes "\<not> truthy uid"
  shows
    "fst (mutate uid newMed remoteInsert uuid ts now later c)
       = Inl (Error ''User not authenticated.'') \<and>
     onMutate uid newMed uuid ts now c = (None, c) \<and>
     queryData (snd (mutate uid newMed remoteInsert uuid ts now later c)) = queryData c \<and>
     dataUpdatedAt (snd (mutate uid newMed remoteInsert uuid ts now later c)) = dataUpdatedAt c \<and>
     isFetching (snd (mutate uid newMed remoteInsert uuid ts now later c)) = isFetching c \<and>
     isInvalidated (snd (mutate uid newMed remoteInsert uuid ts now later c))
       = insert (queryKey uid) (isInvalidated c) \<and>
     callsSince c (snd (mutate uid newMed remoteInsert uuid ts now later c))
       = [SetQueryData (queryKey uid) None, InvalidateQueries (queryKey uid)] \<and>
     (\<forall>k d.
        CancelQueries k \<notin> set (callsSince c (snd (mutate uid newMed remoteInsert uuid ts now later c))) \<and>
        GetQueryData k \<notin> set (callsSince c (snd (mutate uid newMed remoteInsert uuid ts now later c))) \<and>
        SetQueryData k (Some d)
          \<notin> set (callsSince c (snd (mutate uid newMed remoteInsert uuid ts now later c))))"
proof -
  have om: "onMutate uid newMed uuid ts now c = (None, c)"
    using assms by (rule onMutate_falsy)
  have mf: "mutationFn uid newMed remoteInsert = Inl (Error ''User not authenticated.'')"
    using assms by (cases uid) simp_all
  have oe: "onError uid None later c = c\<lparr>calls := calls c @ [SetQueryData (queryKey uid) None]\<rparr>"
    by (rule onError_absent) simp
  have m: "mutate uid newMed remoteInsert uuid ts now later c
      = (Inl (Error ''User not authenticated.''),
         onSettled uid (c\<lparr>calls := calls c @ [SetQueryData (queryKey uid) None]\<rparr>))"
    by (simp add: mutate_phases om mf settle_def oe)
  have cs: "callsSince c (snd (mutate uid newMed remoteInsert uuid ts now later c))
      = [SetQueryData (queryKey uid) None, InvalidateQueries (queryKey uid)]"
    by (rule callsSince_append) (simp add: m onSettled_fields)
  show ?thesis
    by (simp add: om cs) (simp add: m onSettled_fields)
qed

theorem C2_unauthenticated_mutation_witness:
  "\<not> truthy None \<and> \<not> truthy (Some []) \<and>
   fst (mutate None aspirin acceptInsert ''a1'' ''2024-01-02T09:00:00.000Z'' 5000 6000 fetchedClient)
     = Inl (Error ''User not authenticated.'') \<and>
   queryData
     (snd (mutate None aspirin acceptInsert ''a1'' ''2024-01-02T09:00:00.000Z'' 5000 6000 fetchedClient))
     = queryData fetchedClient \<and>
   fst (mutate (Some []) aspirin acceptInsert ''a1'' ''2024-01-02T09:00:00.000Z'' 5000 6000 newClient)
     = Inl (Error ''User not authenticated.'') \<and>
   queryData
     (snd (mutate (Some []) aspirin acceptInsert ''a1'' ''2024-01-02T09:00:00.000Z'' 5000 6000 newClient))
     = queryData newClient"
proof -
  have n: "\<not> truthy None" by simp
  have e: "\<not> truthy (Some [])" by simp
  show ?thesis
    using n e
      C2_unauthenticated_mutation
        [OF n, where newMed = aspirin and remoteInsert = acceptInsert and uuid = "''a1''"
           and ts = "''2024-01-02T09:00:00.000Z''" and now = 5000 and later = 6000
           and c = fetchedClient]
      C2_unauthenticated_mutation
        [OF e, where newMed = aspirin and remoteInsert = acceptInsert and uuid = "''a1''"
           and ts = "''2024-01-02T09:00:00.000Z''" and now = 5000 and later = 6000
           and c = newClient]
    by simp
qed

text \<open>
  The claim as the specification states it, that the unauthenticated mutation changes nothing in the
  cache, fails on the fetched client: with no user the mutation fails as said, yet
  settle runs, and the entry of the key built from the unresolved identifier, unmarked
  before, is marked invalidated after.
\<close>

theorem C2_settle_marks_unresolved_key_counterexample:
  "\<not> truthy None \<and>
   fst (mutate None aspirin acceptInsert ''a1'' ''2024-01-02T09:00:00.000Z'' 5000 6000 fetchedClient)
     = Inl (Error ''User not authenticated.'') \<and>
   cacheEntry (queryKey None) fetchedClient = (None, None, False, False) \<and>
   cacheEntry (queryKey None)
     (snd (mutate None aspirin acceptInsert ''a1'' ''2024-01-02T09:00:00.000Z'' 5000 6000
        fetchedClient))
     = (None, None, True, False) \<and>
   callsSince fetchedClient
     (snd (mutate None aspirin acceptInsert ''a1'' ''2024-01-02T09:00:00.000Z'' 5000 6000
        fetchedClient))
     = [SetQueryData (queryKey None) None, InvalidateQueries (queryKey None)]"
  by (simp add: mutate_phases onMutate_falsy settle_def onError_absent onSettled_def
      invalidateQueries_def cacheEntry_def callsSince_def fetchedClient_def queryKey_def)

section \<open>Settle\<close>




section \<open>Owners are kept apart\<close>

text \<open>
  C4. For two distinct owner identifiers \<open>a\<close> and \<open>b\<close> (resolved or not), whatever is
  done under \<open>a\<close> leaves the entry of \<open>b\<close>'s key as it was: the optimistic write, the
  rollback, the invalidation, the whole mutation, a read of the query under \<open>a\<close> and
  the completion of a fetch for \<open>a\<close>'s key. Every call the mutation makes on the
  client, and every call a read makes, is on \<open>a\<close>'s key, the pair of the entity kind
  \<^verbatim>\<open>medications\<close> and \<open>a\<close>.
\<close>

theorem C4_other_owner_untouched:
  assumes "a \<noteq> b"
  shows
    "cacheEntry (queryKey b) (snd (onMutate a newMed uuid ts now c)) = cacheEntry (queryKey b) c \<and>
     cacheEntry (queryKey b) (onError a ctx later c) = cacheEntry (queryKey b) c \<and>
     cacheEntry (queryKey b) (onSettled a c) = cacheEntry (queryKey b) c \<and>
     cacheEntry (queryKey b) (snd (mutate a newMed remoteInsert uuid ts now later c))
       = cacheEntry (queryKey b) c \<and>
     cacheEntry (queryKey b) (load a authLoading t c) = cacheEntry (queryKey b) c \<and>
     cacheEntry (queryKey b) (fetchSettled (queryKey a) result t c) = cacheEntry (queryKey b) c \<and>
     queryKey a = (''medications'', a) \<and>
     (\<forall>call\<in>set (callsSince c (snd (mutate a newMed remoteInsert uuid ts now later c))).
        callKey call = queryKey a) \<and>
     (\<forall>call\<in>set (callsSince c (load a authLoading t c)). callKey call = queryKey a)"
proof -
  from assms have k: "queryKey b \<noteq> queryKey a"
    by (simp add: queryKey_inject)
  show ?thesis
    using k mutate_callsSince [of c a newMed remoteInsert uuid ts now later]
      load_callsSince [of c a authLoading t]
    by (simp add: onMutate_other onError_other onSettled_other mutate_other load_other
        fetchSettled_other queryKey_def)
qed

text \<open>
  The user \<^verbatim>\<open>u2\<close> adds ibuprofen and the insert is rejected, on the client that holds a
  fetched row for \<^verbatim>\<open>u1\<close>: the entry of \<^verbatim>\<open>u1\<close> is the same before and after.
\<close>

theorem C4_other_owner_untouched_witness:
  "Some ''u2'' \<noteq> Some ''u1'' \<and>
   cacheEntry (queryKey (Some ''u1'')) fetchedClient = (Some [storedRow], Some 1000, False, False) \<and>
   cacheEntry (queryKey (Some ''u1''))
     (snd (mutate (Some ''u2'') ibuprofen rejectInsert ''b2'' ''2024-01-02T09:00:01.000Z'' 5100 6000
        fetchedClient))
     = (Some [storedRow], Some 1000, False, False) \<and>
   queryData
     (snd (mutate (Some ''u2'') ibuprofen rejectInsert ''b2'' ''2024-01-02T09:00:01.000Z'' 5100 6000
        fetchedClient)) (queryKey (Some ''u2''))
     = Some [tempMed ibuprofen ''b2'' ''2024-01-02T09:00:01.000Z'' ''u2'']"
proof -
  have d: "Some ''u2'' \<noteq> Some ''u1''" by simp
  have e: "cacheEntry (queryKey (Some ''u1'')) fetchedClient
      = (Some [storedRow], Some 1000, False, False)"
    by (simp add: cacheEntry_def fetchedClient_def)
  have r: "mutationFn (Some ''u2'') ibuprofen rejectInsert = Inl (StoreError ''insert rejected'')"
    by (simp add: rejectInsert_def)
  have q: "queryData fetchedClient (queryKey (Some ''u2'')) = None"
    by (simp add: fetchedClient_def queryKey_def)
  have p: "queryData
     (snd (mutate (Some ''u2'') ibuprofen rejectInsert ''b2'' ''2024-01-02T09:00:01.000Z'' 5100 6000
        fetchedClient)) (queryKey (Some ''u2''))
     = Some [tempMed ibuprofen ''b2'' ''2024-01-02T09:00:01.000Z'' ''u2'']"
    by (simp only: mutate_phases r) (simp add: settle_failure_absent onMutate_truthy q)
  show ?thesis
    using d e p
      C4_other_owner_untouched
        [OF d, where newMed = ibuprofen and remoteInsert = rejectInsert and uuid = "''b2''"
           and ts = "''2024-01-02T09:00:01.000Z''" and now = 5100 and later = 6000
           and c = fetchedClient]
    by simp
qed

section \<open>Cancel, snapshot, apply\<close>

text \<open>
  C5. For a signed-in user, \<open>onMutate\<close> makes three calls on the client, in this order
  and with nothing between them: the cancel, the read of the snapshot, the optimistic
  write, all on the user's key. Once the cancel has returned no fetch is in flight for
  the key, so the snapshot is the collection the cache held when the cancel returned,
  and the completion of the cancelled fetch writes nothing wherever it arrives:
  before the snapshot, between the snapshot and the write (the write then gives the
  same client as without it), or after the write, where the entry keeps the
  collection that ends with the placeholder.
\<close>

theorem C5_cancel_precedes_snapshot_and_apply:
  assumes "u \<noteq> []"
  shows
    "callsSince c (snd (onMutate (Some u) newMed uuid ts now c))
       = [CancelQueries (queryKey (Some u)), GetQueryData (queryKey (Some u)),
          SetQueryData (queryKey (Some u))
            (Some (appendTemp (tempMed newMed uuid ts u) (queryData c (queryKey (Some u)))))] \<and>
     queryKey (Some u) \<notin> isFetching (cancelQueries (queryKey (Some u)) c) \<and>
     fetchSettled (queryKey (Some u)) result t (cancelQueries (queryKey (Some u)) c)
       = cancelQueries (queryKey (Some u)) c \<and>
     contextPrevious (fst (onMutate (Some u) newMed uuid ts now c))
       = queryData (cancelQueries (queryKey (Some u)) c) (queryKey (Some u)) \<and>
     setQueryData (queryKey (Some u)) (\<lambda>old. Some (appendTemp (tempMed newMed uuid ts u) old)) now
         (fetchSettled (queryKey (Some u)) result t
            (snd (getQueryData (queryKey (Some u)) (cancelQueries (queryKey (Some u)) c))))
       = snd (onMutate (Some u) newMed uuid ts now c) \<and>
     queryKey (Some u) \<notin> isFetching (snd (onMutate (Some u) newMed uuid ts now c)) \<and>
     fetchSettled (queryKey (Some u)) result t (snd (onMutate (Some u) newMed uuid ts now c))
       = snd (onMutate (Some u) newMed uuid ts now c) \<and>
     queryData
       (fetchSettled (queryKey (Some u)) result t (snd (onMutate (Some u) newMed uuid ts now c)))
       (queryKey (Some u))
       = Some (appendTemp (tempMed newMed uuid ts u) (queryData c (queryKey (Some u))))"
proof -
  let ?k = "queryKey (Some u)"
  let ?m = "onMutate (Some u) newMed uuid ts now c"
  have order: "callsSince c (snd ?m)
      = [CancelQueries ?k, GetQueryData ?k,
         SetQueryData ?k (Some (appendTemp (tempMed newMed uuid ts u) (queryData c ?k)))]"
    by (rule callsSince_append) (simp add: onMutate_truthy [OF assms])
  have idle0: "?k \<notin> isFetching (cancelQueries ?k c)"
    by (simp add: cancelQueries_def)
  have idle1: "?k \<notin> isFetching (snd (getQueryData ?k (cancelQueries ?k c)))"
    by (simp add: cancelQueries_def getQueryData_def)
  have idle2: "?k \<notin> isFetching (snd ?m)"
    by (simp add: onMutate_truthy [OF assms])
  have snapshot: "contextPrevious (fst ?m) = queryData (cancelQueries ?k c) ?k"
    by (simp add: onMutate_truthy [OF assms] cancelQueries_def)
  have between: "setQueryData ?k (\<lambda>old. Some (appendTemp (tempMed newMed uuid ts u) old)) now
      (fetchSettled ?k result t (snd (getQueryData ?k (cancelQueries ?k c)))) = snd ?m"
    by (simp only: fetchSettled_cancelled [OF idle1])
       (simp add: onMutate_truthy [OF assms] cancelQueries_def getQueryData_def setQueryData_def)
  have after: "queryData (snd ?m) ?k
      = Some (appendTemp (tempMed newMed uuid ts u) (queryData c ?k))"
    by (simp add: onMutate_truthy [OF assms])
  show ?thesis
    using order idle0 idle2 snapshot between after
    by (simp only: fetchSettled_cancelled [OF idle0] fetchSettled_cancelled [OF idle2]) simp
qed

text \<open>
  A fetch for \<^verbatim>\<open>u1\<close> is in flight on the client that holds the fetched row when \<^verbatim>\<open>u1\<close>
  adds aspirin; the fetch completes with no rows after the optimistic write.
\<close>

theorem C5_cancel_precedes_snapshot_and_apply_witness:
  "''u1'' \<noteq> [] \<and>
   queryKey (Some ''u1'') \<in> isFetching (load (Some ''u1'') False 400000 fetchedClient) \<and>
   queryData
     (fetchSettled (queryKey (Some ''u1'')) (Inr []) 400200
        (snd (onMutate (Some ''u1'') aspirin ''a1'' ''2024-01-02T09:00:00.000Z'' 400100
           (load (Some ''u1'') False 400000 fetchedClient))))
     (queryKey (Some ''u1''))
     = Some [storedRow, tempMed aspirin ''a1'' ''2024-01-02T09:00:00.000Z'' ''u1''] \<and>
   queryData
     (fetchSettled (queryKey (Some ''u1'')) (Inr []) 400200
        (load (Some ''u1'') False 400000 fetchedClient))
     (queryKey (Some ''u1'')) = Some []"
proof -
  have u: "''u1'' \<noteq> []" by simp
  have l: "load (Some ''u1'') False 400000 fetchedClient
      = fetchedClient\<lparr>isFetching := {queryKey (Some ''u1'')},
          calls := [Fetch (queryKey (Some ''u1''))]\<rparr>"
    by (simp add: load_def Let_def enabled_def isStale_def staleTime_def fetchedClient_def)
  have f: "queryData fetchedClient (queryKey (Some ''u1'')) = Some [storedRow]"
    by (simp add: fetchedClient_def)
  have i: "queryKey (Some ''u1'') \<in> isFetching (load (Some ''u1'') False 400000 fetchedClient)"
    by (simp only: l) simp
  have direct: "queryData
     (fetchSettled (queryKey (Some ''u1'')) (Inr []) 400200
        (load (Some ''u1'') False 400000 fetchedClient))
     (queryKey (Some ''u1'')) = Some []"
    by (simp only: fetchSettled_success [OF i]) simp
  have q: "queryData (load (Some ''u1'') False 400000 fetchedClient) (queryKey (Some ''u1''))
      = Some [storedRow]"
    by (simp only: l) (simp add: fetchedClient_def)
  from C5_cancel_precedes_snapshot_and_apply
    [OF u, where newMed = aspirin and uuid = "''a1''" and ts = "''2024-01-02T09:00:00.000Z''"
       and now = 400100 and c = "load (Some ''u1'') False 400000 fetchedClient"
       and result = "Inr []" and t = 400200]
  have "queryData
     (fetchSettled (queryKey (Some ''u1'')) (Inr []) 400200
        (snd (onMutate (Some ''u1'') aspirin ''a1'' ''2024-01-02T09:00:00.000Z'' 400100
           (load (Some ''u1'') False 400000 fetchedClient))))
     (queryKey (Some ''u1''))
     = Some (appendTemp (tempMed aspirin ''a1'' ''2024-01-02T09:00:00.000Z'' ''u1'')
         (queryData (load (Some ''u1'') False 400000 fetchedClient) (queryKey (Some ''u1''))))"
    by blast
  then have "queryData
     (fetchSettled (queryKey (Some ''u1'')) (Inr []) 400200
        (snd (onMutate (Some ''u1'') aspirin ''a1'' ''2024-01-02T09:00:00.000Z'' 400100
           (load (Some ''u1'') False 400000 fetchedClient))))
     (queryKey (Some ''u1''))
     = Some [storedRow, tempMed aspirin ''a1'' ''2024-01-02T09:00:00.000Z'' ''u1'']"
    by (simp only: q appendTemp.simps append.simps)
  with u i direct show ?thesis by (simp only: simp_thms)
qed

section \<open>Freshness\<close>

text \<open>
  C9. The freshness window is \<open>staleTime\<close>, 300000 milliseconds. Once a fetch for the
  user's key has completed successfully at the time \<open>t0\<close>, any number of reads at
  times before \<open>t0 + staleTime\<close> leave the client as it is: none of them issues a
  fetch. Counting from any client, the reads made before that completion, the
  completion, and the reads made within the window after it issue at most one fetch
  in total.
\<close>

theorem C9_reads_within_window_issue_no_fetch:
  assumes "\<forall>t\<in>set ts2. t < t0 + staleTime"
  shows
    "staleTime = 300000 \<and>
     (queryKey uid \<in> isFetching c \<longrightarrow>
        reads uid authLoading ts2 (fetchSettled (queryKey uid) (Inr rows) t0 c)
          = fetchSettled (queryKey uid) (Inr rows) t0 c \<and>
        remoteCalls (reads uid authLoading ts2 (fetchSettled (queryKey uid) (Inr rows) t0 c))
          = remoteCalls c) \<and>
     remoteCalls
       (reads uid authLoading ts2
          (fetchSettled (queryKey uid) (Inr rows) t0 (reads uid authLoading ts1 c)))
       \<le> remoteCalls c + 1"
proof -
  let ?k = "queryKey uid"
  have window: "reads uid authLoading ts2 (fetchSettled ?k (Inr rows) t0 c')
      = fetchSettled ?k (Inr rows) t0 c'"
    if "?k \<in> isFetching c'" for c'
    by (rule reads_fresh [where d = rows and ?t0.0 = t0])
       (simp_all add: fetchSettled_success [OF that] assms)
  have same: "remoteCalls (fetchSettled ?k (Inr rows) t0 c') = remoteCalls c'" for c'
    by (simp add: fetchSettled_def remoteCalls_def)
  have total: "remoteCalls
       (reads uid authLoading ts2 (fetchSettled ?k (Inr rows) t0 (reads uid authLoading ts1 c)))
      \<le> remoteCalls c + 1"
  proof (cases "?k \<in> isFetching (reads uid authLoading ts1 c)")
    case True
    then show ?thesis
      using reads_remoteCalls [of uid authLoading ts1 c] by (simp add: window same)
  next
    case False
    then have "fetchSettled ?k (Inr rows) t0 (reads uid authLoading ts1 c)
        = reads uid authLoading ts1 c"
      by (rule fetchSettled_cancelled)
    moreover from False have "reads uid authLoading ts1 c = c"
      using reads_cases [of uid authLoading ts1 c] by auto
    ultimately show ?thesis
      using reads_remoteCalls [of uid authLoading ts2 c] by simp
  qed
  show ?thesis
    using window [of c] same [of c] total by (simp add: staleTime_def)
qed

text \<open>
  On the new client the user \<^verbatim>\<open>u1\<close> reads at the times 0 and 10, the fetch completes
  at 1000 with one row, and the user reads again at 2000 and at 300999: one fetch.
\<close>

theorem C9_reads_within_window_issue_no_fetch_witness:
  "2000 < 1000 + staleTime \<and> 300999 < 1000 + staleTime \<and>
   remoteCalls newClient = 0 \<and>
   queryKey (Some ''u1'') \<in> isFetching (reads (Some ''u1'') False [0, 10] newClient) \<and>
   remoteCalls
     (reads (Some ''u1'') False [2000, 300999]
        (fetchSettled (queryKey (Some ''u1'')) (Inr [storedRow]) 1000
           (reads (Some ''u1'') False [0, 10] newClient)))
     = 1"
proof -
  have w: "\<forall>t\<in>set [2000, 300999]. t < 1000 + staleTime"
    by (simp add: staleTime_def)
  have r: "reads (Some ''u1'') False [0, 10] newClient
      = newClient\<lparr>isFetching := {queryKey (Some ''u1'')},
          calls := [Fetch (queryKey (Some ''u1''))]\<rparr>"
    by (simp add: load_def Let_def enabled_def isStale_def newClient_def)
  have n: "remoteCalls newClient = 0"
    by (simp add: remoteCalls_def newClient_def)
  have i: "queryKey (Some ''u1'') \<in> isFetching (reads (Some ''u1'') False [0, 10] newClient)"
    by (simp only: r) simp
  have one: "remoteCalls (reads (Some ''u1'') False [0, 10] newClient) = 1"
    by (simp only: r) (simp add: remoteCalls_def)
  from C9_reads_within_window_issue_no_fetch
    [OF w, where uid = "Some ''u1''" and authLoading = False and rows = "[storedRow]"
       and c = "reads (Some ''u1'') False [0, 10] newClient" and ?ts1.0 = "[]"] i
  have "remoteCalls
     (reads (Some ''u1'') False [2000, 300999]
        (fetchSettled (queryKey (Some ''u1'')) (Inr [storedRow]) 1000
           (reads (Some ''u1'') False [0, 10] newClient)))
     = remoteCalls (reads (Some ''u1'') False [0, 10] newClient)"
    by blast
  then have "remoteCalls
     (reads (Some ''u1'') False [2000, 300999]
        (fetchSettled (queryKey (Some ''u1'')) (Inr [storedRow]) 1000
           (reads (Some ''u1'') False [0, 10] newClient))) = 1"
    by (simp only: one)
  moreover have "2000 < 1000 + staleTime \<and> 300999 < 1000 + staleTime"
    by (simp add: staleTime_def)
  ultimately show ?thesis
    using n i by (simp only: simp_thms)
qed

end
